theory Spec2Isabelle
  imports Main "HOL-Library.AList" "HOL-Library.Sublist"
begin

section \<open>Python strings and dictionaries used by the tool registry\<close>

text \<open>
  Strings are \<open>char list\<close>. \<open>str.lower()\<close> is modelled on ASCII text: the letters
  \<open>A\<close>..\<open>Z\<close> (codes 65..90) move to \<open>a\<close>..\<open>z\<close>, every other character is kept.
  Python folds the cased letters beyond ASCII too (\<open>U+00C9\<close> to \<open>U+00E9\<close>); on such
  text \<open>lower\<close> is not Python's function. The properties proved below use of \<open>lower\<close>
  only that it maps the empty string to the empty string.
\<close>

definition lower_char :: "char \<Rightarrow> char" where
  "lower_char c =
     (let n = (of_char c :: nat) in if 65 \<le> n \<and> n \<le> 90 then char_of (n + 32) else c)"

definition lower :: "string \<Rightarrow> string" where
  "lower s = map lower_char s"

text \<open>\<open>s.startswith(p)\<close> and the substring test \<open>sub in s\<close> of Python strings.\<close>

fun startswith :: "string \<Rightarrow> string \<Rightarrow> bool" where
  "startswith s [] = True"
| "startswith [] (p # ps) = False"
| "startswith (c # s) (p # ps) = (c = p \<and> startswith s ps)"

fun str_in :: "string \<Rightarrow> string \<Rightarrow> bool" where
  "str_in sub [] = (sub = [])"
| "str_in sub (c # s) = (startswith (c # s) sub \<or> str_in sub s)"

text \<open>
  \<open>repr\<close> of a string and of a list of strings, as the f-string
  \<open>f"...{missing_params}"\<close> prints them: the string is quoted with \<open>'\<close>, or with
  \<open>"\<close> when it contains \<open>'\<close> and no \<open>"\<close>; the quote and the backslash are escaped,
  tab, newline and carriage return are written \<open>\t\<close>, \<open>\n\<close>, \<open>\r\<close>, and the other
  ASCII control characters \<open>\xhh\<close>. Characters beyond ASCII are kept as they are;
  Python escapes those of them that are not printable (\<open>U+0080\<close> to \<open>U+00A0\<close>,
  \<open>U+00AD\<close>), so on such names \<open>repr_str\<close> is not Python's function. The property
  proved of the message below is that it holds \<open>repr_str\<close> of every missing name.
\<close>

definition squote :: char where "squote = CHR 0x27"
definition dquote :: char where "dquote = CHR 0x22"
definition backslash :: char where "backslash = CHR 0x5C"

definition hex_digit :: "nat \<Rightarrow> char" where
  "hex_digit d = (if d < 10 then char_of (48 + d) else char_of (87 + d))"

definition repr_char :: "char \<Rightarrow> char \<Rightarrow> string" where
  "repr_char q c =
     (let n = (of_char c :: nat) in
      if c = backslash \<or> c = q then [backslash, c]
      else if n = 9 then [backslash, CHR ''t'']
      else if n = 10 then [backslash, CHR ''n'']
      else if n = 13 then [backslash, CHR ''r'']
      else if n < 32 \<or> n = 127 then [backslash, CHR ''x'', hex_digit (n div 16), hex_digit (n mod 16)]
      else [c])"

definition repr_str :: "string \<Rightarrow> string" where
  "repr_str s =
     (let q = (if squote \<in> set s \<and> dquote \<notin> set s then dquote else squote)
      in [q] @ concat (map (repr_char q) s) @ [q])"

fun join :: "string \<Rightarrow> string list \<Rightarrow> string" where
  "join sep [] = []"
| "join sep [x] = x"
| "join sep (x # y # ys) = x @ sep @ join sep (y # ys)"

definition repr_list :: "string list \<Rightarrow> string" where
  "repr_list xs = ''['' @ join '', '' (map repr_str xs) @ '']''"

section \<open>Data model\<close>

datatype ToolType = WEB | FILE | DATA | CALCULATION | COMMUNICATION | SYSTEM

fun ToolType_value :: "ToolType \<Rightarrow> string" where
  "ToolType_value WEB = ''web''"
| "ToolType_value FILE = ''file''"
| "ToolType_value DATA = ''data''"
| "ToolType_value CALCULATION = ''calculation''"
| "ToolType_value COMMUNICATION = ''communication''"
| "ToolType_value SYSTEM = ''system''"

text \<open>
  A parameter mapping is a dictionary with string keys. A handler is a function of the
  parameter mapping that either returns a value or raises. The returned value is any
  Python value: \<open>None\<close> is Python's \<open>None\<close> and \<open>Some v\<close> any other value. Of a
  raised exception \<open>e\<close> the code of \<open>execute_tool\<close> observes two things: whether it
  is an instance of \<open>Exception\<close>, which decides whether the clause
  \<open>except Exception\<close> catches it, and what \<open>str(e)\<close> does. So a raised exception is
  \<^item> \<open>ExceptionStr msg\<close>: an instance of \<open>Exception\<close> with \<open>str(e) = msg\<close>;
  \<^item> \<open>ExceptionBadStr\<close>: an instance of \<open>Exception\<close> whose \<open>str(e)\<close> raises (its
    \<open>__str__\<close> fails or does not return a string);
  \<^item> \<open>NotException cls\<close>: an exception of the class \<open>cls\<close> that is not an instance of
    \<open>Exception\<close> (\<open>SystemExit\<close>, \<open>KeyboardInterrupt\<close>, \<open>GeneratorExit\<close> or another
    direct subclass of \<open>BaseException\<close>).
  A handler that does not return at all is outside the model.
\<close>

type_synonym 'p params = "string \<rightharpoonup> 'p"

datatype raised = ExceptionStr string | ExceptionBadStr | NotException string

datatype 'o handler_outcome = Returned "'o option" | Raised raised

text \<open>The field \<open>keywords\<close> of the source is \<open>tool_keywords\<close> here.\<close>

record ('p, 'o) Tool =
  name :: string
  type :: ToolType
  description :: string
  handler :: "'p params \<Rightarrow> 'o handler_outcome"
  tool_keywords :: "string list"
  required_params :: "string list"

text \<open>
  \<open>ToolResult.__init__\<close>: \<open>output\<close> and \<open>error\<close> default to \<open>None\<close>. The field
  \<open>output\<close> of the source is \<open>tool_output\<close> here.
\<close>

record 'o ToolResult =
  tool_name :: string
  success :: bool
  tool_output :: "'o option"
  error :: "string option"

text \<open>
  An entry of \<open>tool_usage_log\<close>: the dictionary with the keys \<open>'tool'\<close>, \<open>'params'\<close>,
  \<open>'success'\<close> and, on failure only, \<open>'error'\<close> (\<open>None\<close> when the key is absent).
\<close>

record 'p usage =
  log_tool :: string
  log_params :: "'p params"
  log_success :: bool
  log_error :: "string option"

text \<open>
  The registry. \<open>tools\<close> is a Python \<open>dict\<close>: an association list in insertion order,
  whose keys are looked up with \<open>map_of\<close> and stored with \<open>AList.update\<close> (a new key
  goes to the end, an existing key keeps its place and gets the new value).
\<close>

record ('p, 'o) ToolRegistry =
  tools :: "(string \<times> ('p, 'o) Tool) list"
  tool_usage_log :: "'p usage list"

definition init :: "('p, 'o) ToolRegistry" where
  "init = \<lparr>tools = [], tool_usage_log = []\<rparr>"

section \<open>Registration and selection\<close>

definition register :: "('p, 'o) ToolRegistry \<Rightarrow> ('p, 'o) Tool \<Rightarrow> ('p, 'o) ToolRegistry" where
  "register self tool = self\<lparr>tools := AList.update (name tool) tool (tools self)\<rparr>"

text \<open>Rule 1 of \<open>needs_tool\<close>: the inner loop over the keywords of one tool.\<close>

fun keyword_loop :: "string list \<Rightarrow> string \<Rightarrow> bool" where
  "keyword_loop [] task_lower = False"
| "keyword_loop (keyword # rest) task_lower =
     (if str_in (lower keyword) task_lower then True else keyword_loop rest task_lower)"

text \<open>Rule 1: the outer loop over \<open>self.tools.items()\<close>; it returns at the first match.\<close>

fun keyword_rule :: "(string \<times> ('p, 'o) Tool) list \<Rightarrow> string \<Rightarrow> string option" where
  "keyword_rule [] task_lower = None"
| "keyword_rule ((tname, tool) # rest) task_lower =
     (if keyword_loop (tool_keywords tool) task_lower then Some tname
      else keyword_rule rest task_lower)"

definition action_patterns :: "(string \<times> string list) list" where
  "action_patterns =
     [(''web'', [''fetch'', ''download'', ''scrape'', ''get url'', ''http'', ''api call'']),
      (''file'', [''read file'', ''write file'', ''save to'', ''load from'', ''open file'']),
      (''data'', [''parse'', ''transform'', ''filter'', ''aggregate'', ''sort'']),
      (''calculation'', [''calculate'', ''compute'', ''sum'', ''average'', ''count'']),
      (''communication'', [''send email'', ''notify'', ''message'', ''alert'']),
      (''system'', [''execute'', ''run command'', ''shell'', ''process''])]"

text \<open>Rule 2: the inner loop over the patterns of one category.\<close>

fun pattern_loop :: "string list \<Rightarrow> string \<Rightarrow> bool" where
  "pattern_loop [] task_lower = False"
| "pattern_loop (pattern # rest) task_lower =
     (if str_in pattern task_lower then True else pattern_loop rest task_lower)"

text \<open>
  Rule 2: the outer loop; \<open>if tool_type in action_patterns\<close> and the lookup
  \<open>action_patterns[tool_type]\<close> are the two branches of \<open>map_of\<close>.
\<close>

fun pattern_rule :: "(string \<times> ('p, 'o) Tool) list \<Rightarrow> string \<Rightarrow> string option" where
  "pattern_rule [] task_lower = None"
| "pattern_rule ((tname, tool) # rest) task_lower =
     (case map_of action_patterns (ToolType_value (type tool)) of
        None \<Rightarrow> pattern_rule rest task_lower
      | Some patterns \<Rightarrow>
          if pattern_loop patterns task_lower then Some tname
          else pattern_rule rest task_lower)"

definition needs_tool :: "('p, 'o) ToolRegistry \<Rightarrow> string \<Rightarrow> bool \<times> string option" where
  "needs_tool self task_description =
     (let task_lower = lower task_description in
      case keyword_rule (tools self) task_lower of
        Some tname \<Rightarrow> (True, Some tname)
      | None \<Rightarrow>
          (case pattern_rule (tools self) task_lower of
             Some tname \<Rightarrow> (True, Some tname)
           | None \<Rightarrow> (False, None)))"

text \<open>
  \<open>select_tool\<close>: the test \<open>needs_tool and tool_name\<close> is Python truthiness, so a name
  that is \<open>None\<close> or the empty string fails it; \<open>self.tools.get\<close> is \<open>map_of\<close>.
\<close>

definition select_tool :: "('p, 'o) ToolRegistry \<Rightarrow> string \<Rightarrow> ('p, 'o) Tool option" where
  "select_tool self task_description =
     (case needs_tool self task_description of
        (needs, Some tname) \<Rightarrow>
          if needs \<and> tname \<noteq> [] then map_of (tools self) tname else None
      | (needs, None) \<Rightarrow> None)"

section \<open>Execution\<close>

text \<open>
  What can leave a registry method as an exception: the \<open>KeyError\<close> of the subscript
  \<open>self.tools[tool_name]\<close> on a missing key; an exception of the handler that the
  clause \<open>except Exception\<close> does not catch; and whatever \<open>str(e)\<close> raises inside the
  \<open>except\<close> block, where it is evaluated with no guard. A method returns
  \<open>Inr (value, registry)\<close>, or \<open>Inl (exception, registry)\<close> when it raises; the
  registry is the state in which the call leaves the object.
\<close>

datatype py_exception = KeyError string | HandlerRaised raised | StrRaised

text \<open>The list \<open>missing_params\<close> of \<open>execute_tool\<close>: \<open>p not in params\<close> is \<open>params p = None\<close>.\<close>

definition missing_params :: "('p, 'o) Tool \<Rightarrow> 'p params \<Rightarrow> string list" where
  "missing_params tool params = filter (\<lambda>p. params p = None) (required_params tool)"

text \<open>
  In the \<open>try\<close> block the record is appended after the handler has returned. In the
  \<open>except\<close> block the dictionary of the record is built first, \<open>str(e)\<close> included,
  and appended then: when \<open>str(e)\<close> raises, nothing has been appended.
\<close>

definition execute_tool ::
  "('p, 'o) ToolRegistry \<Rightarrow> string \<Rightarrow> 'p params \<Rightarrow>
     (py_exception \<times> ('p, 'o) ToolRegistry) + ('o ToolResult \<times> ('p, 'o) ToolRegistry)" where
  "execute_tool self tname params =
     (if tname \<notin> set (map fst (tools self)) then
        Inr (\<lparr>tool_name = tname, success = False, tool_output = None,
               error = Some (''Tool '' @ [squote] @ tname @ [squote] @ '' not found'')\<rparr>, self)
      else
        case map_of (tools self) tname of
          None \<Rightarrow> Inl (KeyError tname, self)
        | Some tool \<Rightarrow>
            (let missing = missing_params tool params in
             if missing \<noteq> [] then
               Inr (\<lparr>tool_name = tname, success = False, tool_output = None,
                      error = Some (''Missing required parameters: '' @ repr_list missing)\<rparr>,
                    self)
             else
               case handler tool params of
                 Returned out \<Rightarrow>
                   Inr (\<lparr>tool_name = tname, success = True, tool_output = out, error = None\<rparr>,
                        self\<lparr>tool_usage_log := tool_usage_log self @
                          [\<lparr>log_tool = tname, log_params = params, log_success = True,
                            log_error = None\<rparr>]\<rparr>)
               | Raised (NotException cls) \<Rightarrow> Inl (HandlerRaised (NotException cls), self)
               | Raised ExceptionBadStr \<Rightarrow> Inl (StrRaised, self)
               | Raised (ExceptionStr e) \<Rightarrow>
                   Inr (\<lparr>tool_name = tname, success = False, tool_output = None, error = Some e\<rparr>,
                        self\<lparr>tool_usage_log := tool_usage_log self @
                          [\<lparr>log_tool = tname, log_params = params, log_success = False,
                            log_error = Some e\<rparr>]\<rparr>)))"

definition execute_if_needed ::
  "('p, 'o) ToolRegistry \<Rightarrow> string \<Rightarrow> 'p params \<Rightarrow>
     (py_exception \<times> ('p, 'o) ToolRegistry) +
     ('o ToolResult option \<times> ('p, 'o) ToolRegistry)" where
  "execute_if_needed self task_description params =
     (case select_tool self task_description of
        None \<Rightarrow> Inr (None, self)
      | Some tool \<Rightarrow>
          (case execute_tool self (name tool) params of
             Inl raised \<Rightarrow> Inl raised
           | Inr (r, self') \<Rightarrow> Inr (Some r, self')))"

section \<open>Introspection\<close>

definition list_tools :: "('p, 'o) ToolRegistry \<Rightarrow> ToolType option \<Rightarrow> ('p, 'o) Tool list" where
  "list_tools self tool_type =
     (case tool_type of
        None \<Rightarrow> map snd (tools self)
      | Some ty \<Rightarrow> filter (\<lambda>t. type t = ty) (map snd (tools self)))"

text \<open>
  The dictionaries of \<open>get_usage_stats\<close>: the counters of one tool (keys \<open>'total'\<close>,
  \<open>'success'\<close>, \<open>'failure'\<close>) and the summary (the same keys and \<open>'by_tool'\<close>, a
  dictionary in insertion order). Python integers are \<open>int\<close>.
\<close>

record tool_counts =
  t_total :: int
  t_success :: int
  t_failure :: int

record usage_stats =
  stats_total :: int
  stats_success :: int
  stats_failure :: int
  by_tool :: "(string \<times> tool_counts) list"

text \<open>
  One iteration of the loop over the log: the entry of the tool is created when missing,
  then its counters are incremented in place.
\<close>

definition by_tool_step :: "'p usage \<Rightarrow> (string \<times> tool_counts) list \<Rightarrow> (string \<times> tool_counts) list" where
  "by_tool_step log bt =
     (let tool = log_tool log;
          bt1 = (if tool \<notin> set (map fst bt)
                 then AList.update tool \<lparr>t_total = 0, t_success = 0, t_failure = 0\<rparr> bt else bt);
          bt2 = AList.map_entry tool (\<lambda>c. c\<lparr>t_total := t_total c + 1\<rparr>) bt1
      in if log_success log
         then AList.map_entry tool (\<lambda>c. c\<lparr>t_success := t_success c + 1\<rparr>) bt2
         else AList.map_entry tool (\<lambda>c. c\<lparr>t_failure := t_failure c + 1\<rparr>) bt2)"

fun by_tool_loop :: "'p usage list \<Rightarrow> (string \<times> tool_counts) list \<Rightarrow> (string \<times> tool_counts) list" where
  "by_tool_loop [] bt = bt"
| "by_tool_loop (log # rest) bt = by_tool_loop rest (by_tool_step log bt)"

definition get_usage_stats :: "('p, 'o) ToolRegistry \<Rightarrow> usage_stats" where
  "get_usage_stats self =
     (let total = int (length (tool_usage_log self)) in
      if total = 0 then \<lparr>stats_total = 0, stats_success = 0, stats_failure = 0, by_tool = []\<rparr>
      else
        let success_count = int (length (filter log_success (tool_usage_log self)));
            bt = by_tool_loop (tool_usage_log self) []
        in \<lparr>stats_total = total, stats_success = success_count,
            stats_failure = total - success_count, by_tool = bt\<rparr>)"

section \<open>The specification's notions\<close>

text \<open>
  The selection procedure in the specification's words. A keyword rule fires for a tool
  when one of its lower-cased keywords is a substring (\<open>sublist\<close>) of the lower-cased
  description; the category rule fires when a phrase of the tool's category is. The
  table of phrases is written per category.
\<close>

definition keyword_fires :: "('p, 'o) Tool \<Rightarrow> string \<Rightarrow> bool" where
  "keyword_fires tool task_lower =
     (\<exists>keyword \<in> set (tool_keywords tool). sublist (lower keyword) task_lower)"

definition category_patterns :: "ToolType \<Rightarrow> string list" where
  "category_patterns ty =
     (case ty of
        WEB \<Rightarrow> [''fetch'', ''download'', ''scrape'', ''get url'', ''http'', ''api call'']
      | FILE \<Rightarrow> [''read file'', ''write file'', ''save to'', ''load from'', ''open file'']
      | DATA \<Rightarrow> [''parse'', ''transform'', ''filter'', ''aggregate'', ''sort'']
      | CALCULATION \<Rightarrow> [''calculate'', ''compute'', ''sum'', ''average'', ''count'']
      | COMMUNICATION \<Rightarrow> [''send email'', ''notify'', ''message'', ''alert'']
      | SYSTEM \<Rightarrow> [''execute'', ''run command'', ''shell'', ''process''])"

definition category_fires :: "('p, 'o) Tool \<Rightarrow> string \<Rightarrow> bool" where
  "category_fires tool task_lower =
     (\<exists>pattern \<in> set (category_patterns (type tool)). sublist pattern task_lower)"

text \<open>The name of the first registered tool, in the order of the dictionary, that satisfies \<open>P\<close>.\<close>

definition first_match ::
  "(('p, 'o) Tool \<Rightarrow> bool) \<Rightarrow> (string \<times> ('p, 'o) Tool) list \<Rightarrow> string option" where
  "first_match P items = map_option fst (find (\<lambda>(tname, tool). P tool) items)"

definition needs_tool_spec :: "('p, 'o) ToolRegistry \<Rightarrow> string \<Rightarrow> bool \<times> string option" where
  "needs_tool_spec self task_description =
     (let task_lower = lower task_description in
      case first_match (\<lambda>tool. keyword_fires tool task_lower) (tools self) of
        Some tname \<Rightarrow> (True, Some tname)
      | None \<Rightarrow>
          (case first_match (\<lambda>tool. category_fires tool task_lower) (tools self) of
             Some tname \<Rightarrow> (True, Some tname)
           | None \<Rightarrow> (False, None)))"





text \<open>The same registry with other handlers: the tool under the key \<open>k\<close> gets the handler \<open>h k\<close>.\<close>

definition with_handlers ::
  "(string \<Rightarrow> 'p params \<Rightarrow> 'o handler_outcome) \<Rightarrow> ('p, 'o) ToolRegistry \<Rightarrow> ('p, 'o) ToolRegistry" where
  "with_handlers h self =
     self\<lparr>tools := map (\<lambda>(tname, tool). (tname, tool\<lparr>handler := h tname\<rparr>)) (tools self)\<rparr>"

text \<open>A sequence of registrations on a fresh registry: \<open>ToolRegistry().register(t1).register(t2)...\<close>\<close>

definition register_all :: "('p, 'o) Tool list \<Rightarrow> ('p, 'o) ToolRegistry" where
  "register_all ts = foldl register init ts"

text \<open>The sum of one counter over the per-tool breakdown.\<close>

definition sum_counts :: "(tool_counts \<Rightarrow> int) \<Rightarrow> (string \<times> tool_counts) list \<Rightarrow> int" where
  "sum_counts f bt = sum_list (map (\<lambda>(tool, c). f c) bt)"

section \<open>Example registries\<close>

text \<open>
  Registries on which the theorems are exercised, in the manner of the example at the
  end of \<open>tool_registry.py\<close>. Parameter values and outputs are strings. The three
  handlers return a string, raise a \<open>ValueError\<close> with a message, and return \<open>None\<close>
  (a handler without a \<open>return\<close> statement).
\<close>

definition get_param :: "string params \<Rightarrow> string \<Rightarrow> string" where
  "get_param params k = (case params k of None \<Rightarrow> [] | Some v \<Rightarrow> v)"

definition web_fetch :: "(string, string) Tool" where
  "web_fetch =
     \<lparr>name = ''web_fetch'', type = WEB, description = ''Fetch content from a URL'',
      handler = (\<lambda>params. Returned (Some (''Content from '' @ get_param params ''url''))),
      tool_keywords = [''fetch'', ''download'', ''url'', ''http'', ''api''],
      required_params = [''url'']\<rparr>"

definition calculator :: "(string, string) Tool" where
  "calculator =
     \<lparr>name = ''calculator'', type = CALCULATION, description = ''Perform calculations'',
      handler = (\<lambda>params. Raised (ExceptionStr (''Invalid expression: '' @ get_param params ''expression''))),
      tool_keywords = [''calculate'', ''compute'', ''math''],
      required_params = [''expression'']\<rparr>"

definition notifier :: "(string, string) Tool" where
  "notifier =
     \<lparr>name = ''notifier'', type = COMMUNICATION, description = ''Notify the team'',
      handler = (\<lambda>params. Returned None),
      tool_keywords = [], required_params = []\<rparr>"

definition demo :: "(string, string) ToolRegistry" where
  "demo = register_all [web_fetch, calculator, notifier]"

text \<open>A second descriptor under the name \<open>web_fetch\<close>, a tool with an empty keyword, and a tool with an empty name.\<close>

definition web_fetch_v2 :: "(string, string) Tool" where
  "web_fetch_v2 = web_fetch\<lparr>description := ''Fetch content, second version'', required_params := []\<rparr>"

definition catch_all :: "(string, string) Tool" where
  "catch_all =
     \<lparr>name = ''catch_all'', type = SYSTEM, description = ''Runs on everything'',
      handler = (\<lambda>params. Returned None),
      tool_keywords = [''execute'', []], required_params = []\<rparr>"

definition unnamed :: "(string, string) Tool" where
  "unnamed =
     \<lparr>name = [], type = WEB, description = ''A tool registered under the empty name'',
      handler = (\<lambda>params. Returned (Some ''done'')),
      tool_keywords = [''fetch''], required_params = []\<rparr>"




text \<open>A usage log with two successful calls of one tool and a failed call of another.\<close>

definition demo_log :: "string usage list" where
  "demo_log =
     [\<lparr>log_tool = ''web_fetch'', log_params = [''url'' \<mapsto> ''http://x''], log_success = True,
       log_error = None\<rparr>,
      \<lparr>log_tool = ''calculator'', log_params = [''expression'' \<mapsto> ''2 +''], log_success = False,
       log_error = Some ''Invalid expression: 2 +''\<rparr>,
      \<lparr>log_tool = ''web_fetch'', log_params = [''url'' \<mapsto> ''http://y''], log_success = True,
       log_error = None\<rparr>]"

section \<open>Properties of the string functions\<close>

lemma startswith_prefix: "startswith s p \<longleftrightarrow> prefix p s"
  by (induction s p rule: startswith.induct) auto

lemma str_in_sublist: "str_in sub s \<longleftrightarrow> sublist sub s"
proof (induction s)
  case Nil
  show ?case by simp
next
  case (Cons c s)
  show ?case
  proof (cases sub)
    case Nil
    then show ?thesis by simp
  next
    case (Cons a as)
    with Cons.IH show ?thesis
      by (simp add: startswith_prefix sublist_Cons_right del: startswith.simps)
  qed
qed

lemma str_in_empty: "str_in [] s"
  by (simp add: str_in_sublist)

lemma sublist_join: "x \<in> set xs \<Longrightarrow> sublist x (join sep xs)"
proof (induction sep xs rule: join.induct)
  case (1 sep)
  then show ?case by simp
next
  case (2 sep y)
  then show ?case by simp
next
  case (3 sep y z zs)
  show ?case
  proof (cases "x = y")
    case True
    then show ?thesis by (simp add: sublist_append)
  next
    case False
    with 3 have "sublist x (join sep (z # zs))" by simp
    then show ?thesis by (simp add: sublist_append)
  qed
qed

lemma sublist_repr_list: "p \<in> set ps \<Longrightarrow> sublist (repr_str p) (repr_list ps)"
proof -
  assume "p \<in> set ps"
  then have "sublist (repr_str p) (join '', '' (map repr_str ps))"
    by (intro sublist_join) simp
  then show ?thesis
    unfolding repr_list_def by (simp add: sublist_append sublist_Cons_right del: join.simps)
qed

section \<open>Properties of selection\<close>

lemma keyword_loop_iff:
  "keyword_loop kws tlow \<longleftrightarrow> (\<exists>keyword \<in> set kws. str_in (lower keyword) tlow)"
  by (induction kws) auto

lemma pattern_loop_iff:
  "pattern_loop pats tlow \<longleftrightarrow> (\<exists>pattern \<in> set pats. str_in pattern tlow)"
  by (induction pats) auto

lemma map_of_action_patterns:
  "map_of action_patterns (ToolType_value ty) = Some (category_patterns ty)"
  by (cases ty) (simp_all add: action_patterns_def category_patterns_def)

text \<open>\<open>first_match\<close> by positions: the match is at the least index whose tool satisfies \<open>P\<close>.\<close>

lemma first_match_Some_iff:
  "first_match P items = Some n \<longleftrightarrow>
     (\<exists>i < length items. P (snd (items ! i)) \<and> fst (items ! i) = n \<and>
        (\<forall>j < i. \<not> P (snd (items ! j))))"
proof -
  let ?Q = "\<lambda>p. P (snd p)"
  have q: "(\<lambda>(tname, tool). P tool) = ?Q"
    by (simp add: fun_eq_iff)
  have "first_match P items = Some n \<longleftrightarrow> (\<exists>x. find ?Q items = Some x \<and> fst x = n)"
    by (cases "find ?Q items") (simp_all add: first_match_def q)
  also have "\<dots> \<longleftrightarrow> (\<exists>i < length items. ?Q (items ! i) \<and> fst (items ! i) = n \<and>
        (\<forall>j < i. \<not> ?Q (items ! j)))"
    unfolding find_Some_iff by blast
  finally show ?thesis .
qed

lemma first_match_None_iff:
  "first_match P items = None \<longleftrightarrow> (\<forall>i < length items. \<not> P (snd (items ! i)))"
proof -
  have q: "(\<lambda>(tname, tool). P tool) = (\<lambda>p. P (snd p))"
    by (simp add: fun_eq_iff)
  have "first_match P items = None \<longleftrightarrow> (\<forall>x \<in> set items. \<not> P (snd x))"
    by (auto simp: first_match_def q find_None_iff)
  also have "\<dots> \<longleftrightarrow> (\<forall>i < length items. \<not> P (snd (items ! i)))"
    by (simp add: all_set_conv_all_nth)
  finally show ?thesis .
qed

lemma keyword_rule_first_match:
  "keyword_rule items tlow = first_match (\<lambda>tool. keyword_fires tool tlow) items"
  by (induction items tlow rule: keyword_rule.induct)
     (simp_all add: first_match_def keyword_fires_def keyword_loop_iff str_in_sublist)

lemma pattern_rule_first_match:
  "pattern_rule items tlow = first_match (\<lambda>tool. category_fires tool tlow) items"
  by (induction items tlow rule: pattern_rule.induct)
     (simp_all add: first_match_def category_fires_def pattern_loop_iff str_in_sublist
        map_of_action_patterns)

lemma keyword_rule_registered:
  "keyword_rule items tlow = Some n \<Longrightarrow> n \<in> set (map fst items)"
  by (induction items tlow rule: keyword_rule.induct) (auto split: if_splits)

lemma pattern_rule_registered:
  "pattern_rule items tlow = Some n \<Longrightarrow> n \<in> set (map fst items)"
  by (induction items tlow rule: pattern_rule.induct) (auto split: if_splits option.splits)

lemma needs_tool_registered:
  "needs_tool self d = (b, Some n) \<Longrightarrow> n \<in> set (map fst (tools self))"
  by (auto simp: needs_tool_def Let_def split: option.splits
      dest: keyword_rule_registered pattern_rule_registered)

lemma keyword_rule_empty_keyword:
  "(k, tool) \<in> set items \<Longrightarrow> [] \<in> set (tool_keywords tool) \<Longrightarrow>
   \<exists>n. keyword_rule items tlow = Some n"
proof (induction items tlow rule: keyword_rule.induct)
  case (1 tlow)
  then show ?case by simp
next
  case (2 tname t rest tlow)
  show ?case
  proof (cases "keyword_loop (tool_keywords t) tlow")
    case True
    then show ?thesis by simp
  next
    case False
    have "lower [] = []" by (simp add: lower_def)
    with False 2 have "(k, tool) \<in> set rest"
      by (auto simp: keyword_loop_iff str_in_empty)
    with 2 False show ?thesis by simp
  qed
qed

lemma tools_demo:
  "tools demo = [(''web_fetch'', web_fetch), (''calculator'', calculator), (''notifier'', notifier)]"
  by (simp add: demo_def register_all_def register_def init_def web_fetch_def calculator_def
      notifier_def)

text \<open>
  C2. \<open>needs_tool\<close> is the two-tier first-match decision: the name of the first tool, in
  the order of the dictionary, one of whose lower-cased keywords is a substring of the
  lower-cased description; when no tool has such a keyword, the name of the first tool
  whose category has a phrase contained in the lower-cased description; and
  \<open>(False, None)\<close> when neither rule fires.
\<close>

theorem needs_tool_two_tier:
  "needs_tool self task_description = needs_tool_spec self task_description"
  by (simp add: needs_tool_def needs_tool_spec_def keyword_rule_first_match
      pattern_rule_first_match Let_def split: option.splits)

theorem needs_tool_two_tier_witness:
  "needs_tool demo ''Calculate the sum of 10 and 20'' = (True, Some ''calculator'') \<and>
   needs_tool_spec demo ''Calculate the sum of 10 and 20'' = (True, Some ''calculator'') \<and>
   needs_tool demo ''Please alert the team'' = (True, Some ''notifier'') \<and>
   needs_tool_spec demo ''Please alert the team'' = (True, Some ''notifier'') \<and>
   needs_tool demo ''Just think about this'' = (False, None) \<and>
   needs_tool_spec demo ''Just think about this'' = (False, None)"
proof -
  have a: "needs_tool demo ''Calculate the sum of 10 and 20'' = (True, Some ''calculator'')"
    by code_simp
  have b: "needs_tool demo ''Please alert the team'' = (True, Some ''notifier'')"
    by code_simp
  have c: "needs_tool demo ''Just think about this'' = (False, None)"
    by code_simp
  show ?thesis
    using a b c
      needs_tool_two_tier [of demo "''Calculate the sum of 10 and 20''"]
      needs_tool_two_tier [of demo "''Please alert the team''"]
      needs_tool_two_tier [of demo "''Just think about this''"]
    by simp
qed

text \<open>
  C9. When a registered tool has the empty string among its keywords, \<open>needs_tool\<close>
  returns \<open>(True, name)\<close> of a registered tool for every task description, the empty
  description included.
\<close>

theorem empty_keyword_always_selects:
  assumes "(k, tool) \<in> set (tools self)" and "[] \<in> set (tool_keywords tool)"
  shows "\<exists>n. needs_tool self d = (True, Some n) \<and> n \<in> set (map fst (tools self))"
proof -
  from keyword_rule_empty_keyword [OF assms] obtain n
    where n: "keyword_rule (tools self) (lower d) = Some n" by blast
  then have "needs_tool self d = (True, Some n)" by (simp add: needs_tool_def)
  with keyword_rule_registered [OF n] show ?thesis by blast
qed

theorem empty_keyword_always_selects_witness:
  "(''catch_all'', catch_all) \<in> set (tools (register_all [web_fetch, catch_all])) \<and>
   [] \<in> set (tool_keywords catch_all) \<and>
   (\<exists>n. needs_tool (register_all [web_fetch, catch_all]) [] = (True, Some n) \<and>
        n \<in> set (map fst (tools (register_all [web_fetch, catch_all]))))"
proof -
  have a: "(''catch_all'', catch_all) \<in> set (tools (register_all [web_fetch, catch_all]))"
    by (simp add: register_all_def register_def init_def web_fetch_def catch_all_def)
  have b: "[] \<in> set (tool_keywords catch_all)"
    by (simp add: catch_all_def)
  from empty_keyword_always_selects [OF a b, of "[]"] a b show ?thesis by blast
qed

text \<open>
  C10. A tool registered under the empty name and selected by \<open>needs_tool\<close>: the name is
  a key of the registry, and \<open>select_tool\<close> returns \<open>None\<close> all the same, because the
  empty string fails the truthiness test on the name; \<open>execute_if_needed\<close> then
  executes nothing.
\<close>

theorem select_tool_empty_name:
  "needs_tool (register init unnamed) ''fetch the page'' = (True, Some []) \<and>
   map_of (tools (register init unnamed)) [] = Some unnamed \<and>
   select_tool (register init unnamed) ''fetch the page'' = None \<and>
   execute_if_needed (register init unnamed) ''fetch the page'' Map.empty =
     Inr (None, register init unnamed)"
proof -
  have a: "needs_tool (register init unnamed) ''fetch the page'' = (True, Some [])"
    by code_simp
  have b: "map_of (tools (register init unnamed)) [] = Some unnamed"
    by (simp add: register_def init_def unnamed_def)
  from a have c: "select_tool (register init unnamed) ''fetch the page'' = None"
    by (simp add: select_tool_def)
  from a b c show ?thesis by (simp add: execute_if_needed_def)
qed

section \<open>Properties of execution\<close>

lemma key_of_map_of: "map_of items k = Some v \<Longrightarrow> k \<in> set (map fst items)"
  by (metis map_of_eq_None_iff option.distinct(1) set_map)

lemma no_key_of_map_of: "map_of items k = None \<Longrightarrow> k \<notin> set (map fst items)"
  by (simp add: map_of_eq_None_iff)

text \<open>\<open>execute_tool\<close> by the stages of its body.\<close>

lemma execute_tool_not_found:
  "map_of (tools self) tname = None \<Longrightarrow>
   execute_tool self tname params =
     Inr (\<lparr>tool_name = tname, success = False, tool_output = None,
            error = Some (''Tool '' @ [squote] @ tname @ [squote] @ '' not found'')\<rparr>, self)"
  using no_key_of_map_of [of "tools self" tname]
  by (simp add: execute_tool_def)

lemma execute_tool_missing:
  "map_of (tools self) tname = Some tool \<Longrightarrow> missing_params tool params \<noteq> [] \<Longrightarrow>
   execute_tool self tname params =
     Inr (\<lparr>tool_name = tname, success = False, tool_output = None,
            error = Some (''Missing required parameters: '' @
              repr_list (missing_params tool params))\<rparr>, self)"
  using key_of_map_of [of "tools self" tname tool]
  by (simp add: execute_tool_def Let_def)

lemma execute_tool_returned:
  "map_of (tools self) tname = Some tool \<Longrightarrow> missing_params tool params = [] \<Longrightarrow>
   handler tool params = Returned out \<Longrightarrow>
   execute_tool self tname params =
     Inr (\<lparr>tool_name = tname, success = True, tool_output = out, error = None\<rparr>,
          self\<lparr>tool_usage_log := tool_usage_log self @
            [\<lparr>log_tool = tname, log_params = params, log_success = True, log_error = None\<rparr>]\<rparr>)"
  using key_of_map_of [of "tools self" tname tool]
  by (simp add: execute_tool_def Let_def)

lemma execute_tool_raised:
  "map_of (tools self) tname = Some tool \<Longrightarrow> missing_params tool params = [] \<Longrightarrow>
   handler tool params = Raised (ExceptionStr e) \<Longrightarrow>
   execute_tool self tname params =
     Inr (\<lparr>tool_name = tname, success = False, tool_output = None, error = Some e\<rparr>,
          self\<lparr>tool_usage_log := tool_usage_log self @
            [\<lparr>log_tool = tname, log_params = params, log_success = False, log_error = Some e\<rparr>]\<rparr>)"
  using key_of_map_of [of "tools self" tname tool]
  by (simp add: execute_tool_def Let_def)

lemma execute_tool_not_exception:
  "map_of (tools self) tname = Some tool \<Longrightarrow> missing_params tool params = [] \<Longrightarrow>
   handler tool params = Raised (NotException cls) \<Longrightarrow>
   execute_tool self tname params = Inl (HandlerRaised (NotException cls), self)"
  using key_of_map_of [of "tools self" tname tool]
  by (simp add: execute_tool_def Let_def)

lemma execute_tool_bad_str:
  "map_of (tools self) tname = Some tool \<Longrightarrow> missing_params tool params = [] \<Longrightarrow>
   handler tool params = Raised ExceptionBadStr \<Longrightarrow>
   execute_tool self tname params = Inl (StrRaised, self)"
  using key_of_map_of [of "tools self" tname tool]
  by (simp add: execute_tool_def Let_def)

text \<open>The stages a call of \<open>execute_tool\<close> can end in.\<close>

lemma stage_cases [case_names not_found missing returned caught not_exception bad_str]:
  assumes "map_of (tools self) tname = None \<Longrightarrow> P"
    and "\<And>tool. map_of (tools self) tname = Some tool \<Longrightarrow>
      missing_params tool params \<noteq> [] \<Longrightarrow> P"
    and "\<And>tool out. map_of (tools self) tname = Some tool \<Longrightarrow>
      missing_params tool params = [] \<Longrightarrow> handler tool params = Returned out \<Longrightarrow> P"
    and "\<And>tool e. map_of (tools self) tname = Some tool \<Longrightarrow>
      missing_params tool params = [] \<Longrightarrow> handler tool params = Raised (ExceptionStr e) \<Longrightarrow> P"
    and "\<And>tool cls. map_of (tools self) tname = Some tool \<Longrightarrow>
      missing_params tool params = [] \<Longrightarrow> handler tool params = Raised (NotException cls) \<Longrightarrow> P"
    and "\<And>tool. map_of (tools self) tname = Some tool \<Longrightarrow>
      missing_params tool params = [] \<Longrightarrow> handler tool params = Raised ExceptionBadStr \<Longrightarrow> P"
  shows P
proof (cases "map_of (tools self) tname")
  case None
  then show ?thesis by (rule assms(1))
next
  case (Some tool)
  show ?thesis
  proof (cases "missing_params tool params = []")
    case False
    with Some show ?thesis by (rule assms(2))
  next
    case True
    show ?thesis
    proof (cases "handler tool params")
      case (Returned out)
      with Some True show ?thesis by (rule assms(3))
    next
      case (Raised x)
      show ?thesis
      proof (cases x)
        case (ExceptionStr e)
        with Raised have "handler tool params = Raised (ExceptionStr e)" by simp
        with Some True show ?thesis by (rule assms(4))
      next
        case ExceptionBadStr
        with Raised have "handler tool params = Raised ExceptionBadStr" by simp
        with Some True show ?thesis by (rule assms(6))
      next
        case (NotException cls)
        with Raised have "handler tool params = Raised (NotException cls)" by simp
        with Some True show ?thesis by (rule assms(5))
      qed
    qed
  qed
qed







lemma map_of_demo:
  "map_of (tools demo) ''web_fetch'' = Some web_fetch"
  "map_of (tools demo) ''calculator'' = Some calculator"
  "map_of (tools demo) ''notifier'' = Some notifier"
  "map_of (tools demo) ''nonexistent'' = None"
  by (simp_all add: tools_demo)











lemma missing_params_nonempty:
  "missing_params tool params \<noteq> [] \<longleftrightarrow> (\<exists>p \<in> set (required_params tool). params p = None)"
  by (auto simp: missing_params_def filter_empty_conv)

lemma set_missing_params:
  "set (missing_params tool params) = {p \<in> set (required_params tool). params p = None}"
  by (simp add: missing_params_def)

lemma map_of_with_handlers:
  "map_of (tools (with_handlers h self)) tname =
     map_option (\<lambda>tool. tool\<lparr>handler := h tname\<rparr>) (map_of (tools self) tname)"
proof -
  have "map_of (map (\<lambda>(k, t). (k, t\<lparr>handler := h k\<rparr>)) items) tname =
      map_option (\<lambda>t. t\<lparr>handler := h tname\<rparr>) (map_of items tname)" for items
    by (induction items) auto
  then show ?thesis by (simp add: with_handlers_def)
qed

lemma missing_params_handler:
  "missing_params (tool\<lparr>handler := g\<rparr>) params = missing_params tool params"
  by (simp add: missing_params_def)




text \<open>
  C4. When a required parameter of a registered tool is absent from the parameter
  mapping, \<open>execute_tool\<close> returns the failed \<open>ToolResult\<close> whose error is
  \<open>Missing required parameters:\<close> followed by the list of the absent names, each of
  which occurs in the message in its quoted form; the registry is unchanged, and the
  handler is not invoked: with any other handlers in the registry the result is the
  same.
\<close>

theorem missing_params_rejected:
  assumes "map_of (tools self) tname = Some tool"
    and "\<exists>p \<in> set (required_params tool). params p = None"
  shows "execute_tool self tname params =
      Inr (\<lparr>tool_name = tname, success = False, tool_output = None,
             error = Some (''Missing required parameters: '' @
               repr_list (missing_params tool params))\<rparr>, self) \<and>
    set (missing_params tool params) = {p \<in> set (required_params tool). params p = None} \<and>
    (\<forall>p \<in> set (required_params tool). params p = None \<longrightarrow>
       sublist (repr_str p)
         (''Missing required parameters: '' @ repr_list (missing_params tool params))) \<and>
    (\<forall>h. execute_tool (with_handlers h self) tname params =
       Inr (\<lparr>tool_name = tname, success = False, tool_output = None,
              error = Some (''Missing required parameters: '' @
                repr_list (missing_params tool params))\<rparr>, with_handlers h self))"
proof (intro conjI ballI allI impI)
  from assms(2) have m: "missing_params tool params \<noteq> []"
    by (simp add: missing_params_nonempty)
  from execute_tool_missing [OF assms(1) m]
  show "execute_tool self tname params =
      Inr (\<lparr>tool_name = tname, success = False, tool_output = None,
             error = Some (''Missing required parameters: '' @
               repr_list (missing_params tool params))\<rparr>, self)" .
  show "set (missing_params tool params) = {p \<in> set (required_params tool). params p = None}"
    by (rule set_missing_params)
  {
    fix p
    assume "p \<in> set (required_params tool)" and "params p = None"
    then have "p \<in> set (missing_params tool params)"
      by (simp add: set_missing_params)
    then have "sublist (repr_str p) (repr_list (missing_params tool params))"
      by (rule sublist_repr_list)
    then show "sublist (repr_str p)
        (''Missing required parameters: '' @ repr_list (missing_params tool params))"
      by (simp only: sublist_append) simp
  }
  {
    fix h
    have l: "map_of (tools (with_handlers h self)) tname = Some (tool\<lparr>handler := h tname\<rparr>)"
      by (simp add: map_of_with_handlers assms(1))
    from m have m': "missing_params (tool\<lparr>handler := h tname\<rparr>) params \<noteq> []"
      by (simp add: missing_params_handler)
    from execute_tool_missing [OF l m']
    show "execute_tool (with_handlers h self) tname params =
       Inr (\<lparr>tool_name = tname, success = False, tool_output = None,
              error = Some (''Missing required parameters: '' @
                repr_list (missing_params tool params))\<rparr>, with_handlers h self)"
      by (simp add: missing_params_handler)
  }
qed

theorem missing_params_rejected_witness:
  "map_of (tools demo) ''web_fetch'' = Some web_fetch \<and>
   ''url'' \<in> set (required_params web_fetch) \<and>
   execute_tool demo ''web_fetch'' Map.empty =
     Inr (\<lparr>tool_name = ''web_fetch'', success = False, tool_output = None,
            error = Some (''Missing required parameters: ['' @ [squote] @ ''url'' @ [squote] @ '']'')\<rparr>,
          demo)"
proof -
  have a: "map_of (tools demo) ''web_fetch'' = Some web_fetch"
    by (rule map_of_demo)
  have b: "''url'' \<in> set (required_params web_fetch)"
    by (simp add: web_fetch_def)
  then have c: "\<exists>p \<in> set (required_params web_fetch). (Map.empty :: string params) p = None"
    by auto
  have m: "missing_params web_fetch Map.empty = [''url'']"
    by (simp add: missing_params_def web_fetch_def)
  have r: "repr_list [''url''] = ''['' @ [squote] @ ''url'' @ [squote] @ '']''"
    by code_simp
  from missing_params_rejected [OF a c, THEN conjunct1]
  have "execute_tool demo ''web_fetch'' Map.empty =
     Inr (\<lparr>tool_name = ''web_fetch'', success = False, tool_output = None,
            error = Some (''Missing required parameters: '' @ repr_list [''url''])\<rparr>, demo)"
    by (simp only: m)
  with a b r show ?thesis by simp
qed



text \<open>
  C8, the claim as stated fails: a handler that returns \<open>None\<close> gives a successful
  \<open>ToolResult\<close> in which neither \<open>output\<close> nor \<open>error\<close> is populated.
\<close>

theorem success_without_output:
  "execute_tool demo ''notifier'' Map.empty =
     Inr (\<lparr>tool_name = ''notifier'', success = True, tool_output = None, error = None\<rparr>,
          demo\<lparr>tool_usage_log := tool_usage_log demo @
            [\<lparr>log_tool = ''notifier'', log_params = Map.empty, log_success = True,
              log_error = None\<rparr>]\<rparr>)"
proof -
  have a: "map_of (tools demo) ''notifier'' = Some notifier"
    by (rule map_of_demo)
  have b: "missing_params notifier Map.empty = []"
    by (simp add: missing_params_def notifier_def)
  have c: "handler notifier Map.empty = Returned None"
    by (simp add: notifier_def)
  from execute_tool_returned [OF a b c] show ?thesis .
qed

text \<open>
  C8, amended. In every \<open>ToolResult\<close> of \<open>execute_tool\<close> the error is absent exactly
  when \<open>success\<close> is true. When \<open>success\<close> is false the error is a string and the
  output is absent. When \<open>success\<close> is true the output is what the handler returned, so
  it is absent when the handler returned \<open>None\<close>.
\<close>

theorem tool_result_fields:
  assumes "execute_tool self tname params = Inr (r, self')"
  shows "tool_name r = tname \<and>
    (success r \<longleftrightarrow> error r = None) \<and>
    (\<not> success r \<longrightarrow> tool_output r = None \<and> (\<exists>msg. error r = Some msg)) \<and>
    (success r \<longrightarrow> error r = None \<and>
       (\<exists>tool. map_of (tools self) tname = Some tool \<and>
          handler tool params = Returned (tool_output r)))"
proof (cases rule: stage_cases [where self = self and tname = tname and params = params])
  case not_found
  from execute_tool_not_found [OF not_found, of params] assms show ?thesis by auto
next
  case (missing tool)
  from execute_tool_missing [OF missing] assms show ?thesis by auto
next
  case (returned tool out)
  from execute_tool_returned [OF returned] assms returned show ?thesis by auto
next
  case (caught tool e)
  from execute_tool_raised [OF caught] assms show ?thesis by auto
next
  case (not_exception tool cls)
  from execute_tool_not_exception [OF not_exception] assms show ?thesis by simp
next
  case (bad_str tool)
  from execute_tool_bad_str [OF bad_str] assms show ?thesis by simp
qed

theorem tool_result_fields_witness:
  "execute_tool demo ''web_fetch'' [''url'' \<mapsto> ''http://x''] =
     Inr (\<lparr>tool_name = ''web_fetch'', success = True,
            tool_output = Some ''Content from http://x'', error = None\<rparr>,
          demo\<lparr>tool_usage_log := tool_usage_log demo @
            [\<lparr>log_tool = ''web_fetch'', log_params = [''url'' \<mapsto> ''http://x''],
              log_success = True, log_error = None\<rparr>]\<rparr>) \<and>
   handler web_fetch [''url'' \<mapsto> ''http://x''] = Returned (Some ''Content from http://x'') \<and>
   (\<exists>tool. map_of (tools demo) ''web_fetch'' = Some tool \<and>
      handler tool [''url'' \<mapsto> ''http://x''] = Returned (Some ''Content from http://x''))"
proof -
  let ?ps = "[''url'' \<mapsto> ''http://x''] :: string params"
  let ?r = "\<lparr>tool_name = ''web_fetch'', success = True,
            tool_output = Some ''Content from http://x'', error = None\<rparr>"
  have a: "map_of (tools demo) ''web_fetch'' = Some web_fetch"
    by (rule map_of_demo)
  have b: "missing_params web_fetch ?ps = []"
    by (simp add: missing_params_def web_fetch_def)
  have c: "handler web_fetch ?ps = Returned (Some ''Content from http://x'')"
    by (simp add: web_fetch_def get_param_def)
  note e = execute_tool_returned [OF a b c]
  from tool_result_fields [OF e]
  have "\<exists>tool. map_of (tools demo) ''web_fetch'' = Some tool \<and>
      handler tool ?ps = Returned (tool_output ?r)"
    by simp
  then have "\<exists>tool. map_of (tools demo) ''web_fetch'' = Some tool \<and>
      handler tool ?ps = Returned (Some ''Content from http://x'')"
    by simp
  with e c show ?thesis by (intro conjI)
qed


section \<open>Properties of registration\<close>

lemma update_set_cases:
  "(k', v') \<in> set (AList.update k v al) \<Longrightarrow> (k', v') = (k, v) \<or> (k', v') \<in> set al"
  by (induction al) (auto split: if_splits)

lemma foldl_register_keys:
  "fst ` set (tools (foldl register s ts)) = fst ` set (tools s) \<union> name ` set ts"
  by (induction ts arbitrary: s) (auto simp: register_def AList.dom_update)

lemma foldl_register_distinct:
  "distinct (map fst (tools s)) \<Longrightarrow> distinct (map fst (tools (foldl register s ts)))"
  by (induction ts arbitrary: s) (simp_all add: register_def AList.distinct_update)

lemma foldl_register_named:
  "\<forall>(k, t) \<in> set (tools s). name t = k \<Longrightarrow>
   \<forall>(k, t) \<in> set (tools (foldl register s ts)). name t = k"
proof (induction ts arbitrary: s)
  case Nil
  then show ?case by simp
next
  case (Cons t ts)
  have "\<forall>(k, u) \<in> set (tools (register s t)). name u = k"
    using Cons.prems by (auto simp: register_def dest!: update_set_cases)
  from Cons.IH [OF this] show ?case by simp
qed

lemma foldl_register_map_of:
  "map_of (tools (foldl register s ts)) =
     map_of (tools s) ++ map_of (rev (map (\<lambda>t. (name t, t)) ts))"
proof (induction ts arbitrary: s)
  case Nil
  show ?case by simp
next
  case (Cons t ts)
  have r: "map_of (tools (register s t)) = (map_of (tools s))(name t \<mapsto> t)"
    by (simp add: register_def AList.update_conv')
  have "map_of (tools (foldl register s (t # ts))) =
      map_of (tools (register s t)) ++ map_of (rev (map (\<lambda>t. (name t, t)) ts))"
    by (simp add: Cons.IH)
  then show ?case
    unfolding r by (auto simp: map_add_def fun_eq_iff split: option.splits)
qed

text \<open>
  C7. \<open>register\<close> stores the descriptor under its name, leaves the other keys and the
  usage log as they were, and returns the registry; keys stay distinct. After any
  sequence of registrations on a fresh registry the keys are distinct and are the names
  of the listed tools, each name holds the descriptor registered last under it, and the
  length of \<open>list_tools()\<close> is the number of distinct names registered.
\<close>

theorem register_last_write_wins:
  "map_of (tools (register self tool)) (name tool) = Some tool \<and>
   (\<forall>k. k \<noteq> name tool \<longrightarrow> map_of (tools (register self tool)) k = map_of (tools self) k) \<and>
   tool_usage_log (register self tool) = tool_usage_log self \<and>
   (distinct (map fst (tools self)) \<longrightarrow> distinct (map fst (tools (register self tool)))) \<and>
   distinct (map fst (tools (register_all ts))) \<and>
   map name (list_tools (register_all ts) None) = map fst (tools (register_all ts)) \<and>
   map_of (tools (register_all ts)) = map_of (rev (map (\<lambda>t. (name t, t)) ts)) \<and>
   length (list_tools (register_all ts) None) = card (name ` set ts)"
proof -
  let ?r = "register_all ts"
  have d: "distinct (map fst (tools ?r))"
    unfolding register_all_def by (rule foldl_register_distinct) (simp add: init_def)
  have "\<forall>(k, t) \<in> set (tools ?r). name t = k"
    unfolding register_all_def by (rule foldl_register_named) (simp add: init_def)
  then have n: "map name (list_tools ?r None) = map fst (tools ?r)"
    by (auto simp: list_tools_def)
  have m: "map_of (tools ?r) = map_of (rev (map (\<lambda>t. (name t, t)) ts))"
    by (simp add: register_all_def foldl_register_map_of init_def)
  have "length (list_tools ?r None) = length (map fst (tools ?r))"
    by (simp add: list_tools_def)
  also have "\<dots> = card (set (map fst (tools ?r)))"
    using d by (simp only: distinct_card)
  also have "\<dots> = card (name ` set ts)"
    by (simp add: register_all_def foldl_register_keys init_def)
  finally have c: "length (list_tools ?r None) = card (name ` set ts)" .
  have u: "distinct (map fst (tools self)) \<longrightarrow> distinct (map fst (tools (register self tool)))"
    by (simp add: register_def AList.distinct_update)
  show ?thesis using d n m c u
    by (simp add: register_def AList.update_conv')
qed

theorem register_last_write_wins_witness:
  "name web_fetch_v2 = name web_fetch \<and> web_fetch_v2 \<noteq> web_fetch \<and>
   ''calculator'' \<noteq> name web_fetch_v2 \<and>
   distinct (map fst (tools (register_all [web_fetch, calculator]))) \<and>
   map_of (tools (register (register_all [web_fetch, calculator]) web_fetch_v2)) ''web_fetch'' =
     Some web_fetch_v2 \<and>
   map_of (tools (register (register_all [web_fetch, calculator]) web_fetch_v2)) ''calculator'' =
     Some calculator \<and>
   distinct (map fst (tools (register (register_all [web_fetch, calculator]) web_fetch_v2))) \<and>
   length (list_tools (register_all [web_fetch, calculator, web_fetch_v2]) None) = 2"
proof -
  let ?s = "register_all [web_fetch, calculator]"
  let ?ts = "[web_fetch, calculator, web_fetch_v2]"
  note t = register_last_write_wins [of ?s web_fetch_v2 ?ts]
  have a: "name web_fetch_v2 = name web_fetch"
    by (simp add: web_fetch_v2_def)
  have a': "name web_fetch_v2 = ''web_fetch''"
    by (simp add: web_fetch_v2_def web_fetch_def)
  have b: "web_fetch_v2 \<noteq> web_fetch"
    by (simp add: web_fetch_v2_def web_fetch_def)
  have c: "''calculator'' \<noteq> name web_fetch_v2"
    by (simp add: a')
  have d: "distinct (map fst (tools ?s))"
    by (simp add: register_all_def register_def init_def web_fetch_def calculator_def)
  have e: "map_of (tools ?s) ''calculator'' = Some calculator"
    by (simp add: register_all_def register_def init_def web_fetch_def calculator_def)
  from t have f: "map_of (tools (register ?s web_fetch_v2)) ''web_fetch'' = Some web_fetch_v2"
    by (simp only: a')
  from t [THEN conjunct2, THEN conjunct1, rule_format, OF c] e
  have g: "map_of (tools (register ?s web_fetch_v2)) ''calculator'' = Some calculator"
    by simp
  from t [THEN conjunct2, THEN conjunct2, THEN conjunct2, THEN conjunct1, rule_format, OF d]
  have h: "distinct (map fst (tools (register ?s web_fetch_v2)))" .
  have "card (name ` set ?ts) = 2"
    by (simp add: a' web_fetch_def calculator_def card_insert_if)
  with t have i: "length (list_tools (register_all ?ts) None) = 2"
    by (simp only:)
  from a b c d f g h i show ?thesis by (intro conjI)
qed

section \<open>Properties of the usage statistics\<close>

lemma sum_counts_update_new:
  "k \<notin> set (map fst bt) \<Longrightarrow> sum_counts f (AList.update k v bt) = sum_counts f bt + f v"
  by (induction bt) (auto simp: sum_counts_def)

lemma sum_counts_map_entry:
  "map_of bt k = Some v \<Longrightarrow>
   sum_counts f (AList.map_entry k g bt) = sum_counts f bt - f v + f (g v)"
  by (induction bt) (auto simp: sum_counts_def)

lemma by_tool_step_keys:
  "fst ` set (by_tool_step log bt) = insert (log_tool log) (fst ` set bt)"
  by (auto simp: by_tool_step_def Let_def AList.dom_map_entry AList.dom_update)

lemma by_tool_step_distinct:
  "distinct (map fst bt) \<Longrightarrow> distinct (map fst (by_tool_step log bt))"
  by (simp add: by_tool_step_def Let_def AList.distinct_map_entry AList.distinct_update)

lemma by_tool_step_sums:
  "sum_counts t_total (by_tool_step log bt) = sum_counts t_total bt + 1"
  "sum_counts t_success (by_tool_step log bt) =
     sum_counts t_success bt + (if log_success log then 1 else 0)"
  "sum_counts t_failure (by_tool_step log bt) =
     sum_counts t_failure bt + (if log_success log then 0 else 1)"
proof -
  let ?k = "log_tool log"
  let ?z = "\<lparr>t_total = 0, t_success = 0, t_failure = 0\<rparr>"
  define bt1 where "bt1 = (if ?k \<notin> set (map fst bt) then AList.update ?k ?z bt else bt)"
  obtain v where v: "map_of bt1 ?k = Some v"
    by (cases "map_of bt1 ?k")
       (auto simp: bt1_def map_of_eq_None_iff AList.dom_update split: if_splits)
  have s1: "sum_counts f bt1 = sum_counts f bt + (if ?k \<notin> set (map fst bt) then f ?z else 0)" for f
    by (simp add: bt1_def sum_counts_update_new)
  define bt2 where "bt2 = AList.map_entry ?k (\<lambda>c. c\<lparr>t_total := t_total c + 1\<rparr>) bt1"
  have v2: "map_of bt2 ?k = Some (v\<lparr>t_total := t_total v + 1\<rparr>)"
    by (simp add: bt2_def AList.map_of_map_entry v)
  have step: "by_tool_step log bt =
      (if log_success log
       then AList.map_entry ?k (\<lambda>c. c\<lparr>t_success := t_success c + 1\<rparr>) bt2
       else AList.map_entry ?k (\<lambda>c. c\<lparr>t_failure := t_failure c + 1\<rparr>) bt2)"
    by (simp add: by_tool_step_def bt1_def bt2_def Let_def)
  have s2: "sum_counts f bt2 = sum_counts f bt1 - f v + f (v\<lparr>t_total := t_total v + 1\<rparr>)" for f
    unfolding bt2_def by (rule sum_counts_map_entry [OF v])
  show "sum_counts t_total (by_tool_step log bt) = sum_counts t_total bt + 1"
    by (simp add: step sum_counts_map_entry [OF v2] s2 s1)
  show "sum_counts t_success (by_tool_step log bt) =
     sum_counts t_success bt + (if log_success log then 1 else 0)"
    by (simp add: step sum_counts_map_entry [OF v2] s2 s1)
  show "sum_counts t_failure (by_tool_step log bt) =
     sum_counts t_failure bt + (if log_success log then 0 else 1)"
    by (simp add: step sum_counts_map_entry [OF v2] s2 s1)
qed

lemma by_tool_loop_sums:
  "sum_counts t_total (by_tool_loop logs bt) = sum_counts t_total bt + int (length logs)"
  "sum_counts t_success (by_tool_loop logs bt) =
     sum_counts t_success bt + int (length (filter log_success logs))"
  "sum_counts t_failure (by_tool_loop logs bt) =
     sum_counts t_failure bt + int (length (filter (\<lambda>l. \<not> log_success l) logs))"
  by (induction logs arbitrary: bt) (simp_all add: by_tool_step_sums)

lemma by_tool_loop_distinct:
  "distinct (map fst bt) \<Longrightarrow> distinct (map fst (by_tool_loop logs bt))"
  by (induction logs arbitrary: bt) (simp_all add: by_tool_step_distinct)

lemma by_tool_loop_keys:
  "fst ` set (by_tool_loop logs bt) = fst ` set bt \<union> log_tool ` set logs"
  by (induction logs arbitrary: bt) (auto simp: by_tool_step_keys)

lemma length_filter_split:
  "int (length xs) - int (length (filter P xs)) = int (length (filter (\<lambda>x. \<not> P x) xs))"
  using sum_length_filter_compl [of P xs] by linarith

text \<open>
  C6. On an empty usage log \<open>get_usage_stats\<close> returns the all-zero summary with an
  empty breakdown. On every usage log the total is the number of records and equals
  success plus failure; over the per-tool breakdown the totals sum to the overall
  total, the success counts to the overall success count and the failure counts to
  the overall failure count; the breakdown has one entry per tool of the log.
\<close>

theorem usage_stats_consistent:
  "get_usage_stats (self\<lparr>tool_usage_log := []\<rparr>) =
     \<lparr>stats_total = 0, stats_success = 0, stats_failure = 0, by_tool = []\<rparr> \<and>
   stats_total (get_usage_stats self) = int (length (tool_usage_log self)) \<and>
   stats_total (get_usage_stats self) =
     stats_success (get_usage_stats self) + stats_failure (get_usage_stats self) \<and>
   sum_counts t_total (by_tool (get_usage_stats self)) = stats_total (get_usage_stats self) \<and>
   sum_counts t_success (by_tool (get_usage_stats self)) = stats_success (get_usage_stats self) \<and>
   sum_counts t_failure (by_tool (get_usage_stats self)) = stats_failure (get_usage_stats self) \<and>
   distinct (map fst (by_tool (get_usage_stats self))) \<and>
   set (map fst (by_tool (get_usage_stats self))) = set (map log_tool (tool_usage_log self))"
proof (cases "tool_usage_log self = []")
  case True
  then show ?thesis by (simp add: get_usage_stats_def sum_counts_def)
next
  case False
  have z: "sum_counts f [] = 0" for f by (simp add: sum_counts_def)
  have f: "stats_failure (get_usage_stats self) =
      int (length (filter (\<lambda>l. \<not> log_success l) (tool_usage_log self)))"
    using False by (simp add: get_usage_stats_def Let_def length_filter_split)
  have rest: "stats_total (get_usage_stats self) = int (length (tool_usage_log self))"
    "stats_success (get_usage_stats self) = int (length (filter log_success (tool_usage_log self)))"
    "by_tool (get_usage_stats self) = by_tool_loop (tool_usage_log self) []"
    using False by (simp_all add: get_usage_stats_def Let_def)
  have e: "get_usage_stats (self\<lparr>tool_usage_log := []\<rparr>) =
     \<lparr>stats_total = 0, stats_success = 0, stats_failure = 0, by_tool = []\<rparr>"
    by (simp add: get_usage_stats_def)
  have tsf: "int (length (tool_usage_log self)) =
     int (length (filter log_success (tool_usage_log self))) +
     int (length (filter (\<lambda>l. \<not> log_success l) (tool_usage_log self)))"
    using length_filter_split [of "tool_usage_log self" log_success] by linarith
  show ?thesis
    unfolding f rest e
    using tsf by (simp add: by_tool_loop_sums z by_tool_loop_distinct by_tool_loop_keys)
qed

theorem usage_stats_consistent_witness:
  "get_usage_stats (demo\<lparr>tool_usage_log := []\<rparr>) =
     \<lparr>stats_total = 0, stats_success = 0, stats_failure = 0, by_tool = []\<rparr> \<and>
   get_usage_stats (demo\<lparr>tool_usage_log := demo_log\<rparr>) =
     \<lparr>stats_total = 3, stats_success = 2, stats_failure = 1,
      by_tool = [(''web_fetch'', \<lparr>t_total = 2, t_success = 2, t_failure = 0\<rparr>),
                 (''calculator'', \<lparr>t_total = 1, t_success = 0, t_failure = 1\<rparr>)]\<rparr> \<and>
   sum_counts t_total (by_tool (get_usage_stats (demo\<lparr>tool_usage_log := demo_log\<rparr>))) = 3 \<and>
   sum_counts t_success (by_tool (get_usage_stats (demo\<lparr>tool_usage_log := demo_log\<rparr>))) = 2 \<and>
   sum_counts t_failure (by_tool (get_usage_stats (demo\<lparr>tool_usage_log := demo_log\<rparr>))) = 1"
proof -
  let ?s = "demo\<lparr>tool_usage_log := demo_log\<rparr>"
  have v: "get_usage_stats ?s =
     \<lparr>stats_total = 3, stats_success = 2, stats_failure = 1,
      by_tool = [(''web_fetch'', \<lparr>t_total = 2, t_success = 2, t_failure = 0\<rparr>),
                 (''calculator'', \<lparr>t_total = 1, t_success = 0, t_failure = 1\<rparr>)]\<rparr>"
    by (simp add: get_usage_stats_def demo_log_def by_tool_step_def Let_def)
  then have p: "stats_total (get_usage_stats ?s) = 3" "stats_success (get_usage_stats ?s) = 2"
    "stats_failure (get_usage_stats ?s) = 1"
    by simp_all
  note t = usage_stats_consistent [of ?s]
  note u = usage_stats_consistent [of demo]
  from u have e: "get_usage_stats (demo\<lparr>tool_usage_log := []\<rparr>) =
     \<lparr>stats_total = 0, stats_success = 0, stats_failure = 0, by_tool = []\<rparr>"
    by (rule conjunct1)
  from t p have s: "sum_counts t_total (by_tool (get_usage_stats ?s)) = 3"
    "sum_counts t_success (by_tool (get_usage_stats ?s)) = 2"
    "sum_counts t_failure (by_tool (get_usage_stats ?s)) = 1"
    by simp_all
  from e v s show ?thesis by (intro conjI)
qed

end
